theory Spec2Isabelle
  imports Main "HOL-Library.Sublist"
begin

section \<open>JavaScript values handled by the form helpers\<close>

text \<open>
  The helpers of \<^verbatim>\<open>PrimaryControl.ts\<close> receive a caller-supplied specifier of unknown
  runtime shape and dispatch on \<^verbatim>\<open>=== undefined\<close>, \<^verbatim>\<open>Array.isArray\<close>, \<^verbatim>\<open>typeof\<close>
  and truthiness. The values are therefore modelled as a tagged union of the runtime
  shapes.

  A host object (attribute, control, form context, execution context) is opaque to the
  helpers except for its name and for which of its properties are functions: the guards
  of \<^verbatim>\<open>CheckTypes\<close> test \<^verbatim>\<open>typeof obj.m === "function"\<close> and nothing else.

  A function value is represented by what it answers when the host uses it as a
  matching delegate on an item.
\<close>

text \<open>
  Numbers. A JavaScript number is a double. The numbers of the model are the safe
  integers, \<open>\<bar>i\<bar> < 2\<^sup>5\<^sup>3\<close>: a double holds each of them exactly and a template literal
  prints each in plain decimal. They include every collection index. The other doubles
  (\<^verbatim>\<open>NaN\<close>, fractions, infinities, and the integers of magnitude \<open>2\<^sup>5\<^sup>3\<close> or more, which
  a double need not hold and which print with an exponent from \<open>10\<^sup>2\<^sup>1\<close> on) are not
  values of the model.
\<close>

typedef jsint = "{i :: int. \<bar>i\<bar> < 2 ^ 53}"
  morphisms int_of_jsint jsint_of_int
  by (rule exI [of _ 0]) simp

instantiation jsint :: zero
begin

definition zero_jsint :: jsint where
  "zero_jsint = jsint_of_int 0"

instance ..

end

record hostobj =
  oname :: string
  fn_props :: "string list"

datatype jsval =
    JUndefined
  | JNull
  | JBool bool
  | JNum jsint
  | JStr string
  | JArr "jsval list"
  | JFun "hostobj \<Rightarrow> bool"
  | JObj hostobj

fun typeof :: "jsval \<Rightarrow> string" where
  "typeof JUndefined = ''undefined''"
| "typeof JNull = ''object''"
| "typeof (JBool b) = ''boolean''"
| "typeof (JNum n) = ''number''"
| "typeof (JStr s) = ''string''"
| "typeof (JArr xs) = ''object''"
| "typeof (JFun f) = ''function''"
| "typeof (JObj ob) = ''object''"

text \<open>Truthiness, as tested by \<^verbatim>\<open>if (x)\<close> and \<^verbatim>\<open>!x\<close>.\<close>

fun truthy :: "jsval \<Rightarrow> bool" where
  "truthy JUndefined = False"
| "truthy JNull = False"
| "truthy (JBool b) = b"
| "truthy (JNum n) = (int_of_jsint n \<noteq> 0)"
| "truthy (JStr s) = (s \<noteq> [])"
| "truthy (JArr xs) = True"
| "truthy (JFun f) = True"
| "truthy (JObj ob) = True"

fun is_null :: "jsval \<Rightarrow> bool" where
  "is_null JNull = True"
| "is_null v = False"

text \<open>\<^verbatim>\<open>x ?? null\<close>: \<^verbatim>\<open>null\<close> and \<^verbatim>\<open>undefined\<close> become \<^verbatim>\<open>null\<close>.\<close>

fun nullish_to_null :: "jsval \<Rightarrow> jsval" where
  "nullish_to_null JUndefined = JNull"
| "nullish_to_null v = v"

text \<open>
  What a template literal prints for a number of the model: its decimal digits, with a
  minus sign when negative. \<open>digit_char\<close> is only applied to a digit value below ten.
\<close>

definition digit_char :: "nat \<Rightarrow> char" where
  "digit_char d = ''0123456789'' ! d"

fun decimal :: "nat \<Rightarrow> string" where
  "decimal n = (if 10 \<le> n then decimal (n div 10) @ [digit_char (n mod 10)] else [digit_char n])"

declare decimal.simps [simp del]

definition number_to_string :: "jsint \<Rightarrow> string" where
  "number_to_string n =
     (if 0 \<le> int_of_jsint n then decimal (nat (int_of_jsint n))
      else CHR ''-'' # decimal (nat (- int_of_jsint n)))"

text \<open>
  Reading a printed number back. These serve to say that a text names a number: the
  number can be recovered from it.
\<close>

definition digit_value :: "char \<Rightarrow> nat" where
  "digit_value c = length (takeWhile (\<lambda>d. d \<noteq> c) ''0123456789'')"

definition digits_value :: "string \<Rightarrow> nat" where
  "digits_value ds = foldl (\<lambda>acc c. 10 * acc + digit_value c) 0 ds"

definition number_value :: "string \<Rightarrow> int" where
  "number_value str =
     (case str of
        [] \<Rightarrow> 0
      | c # cs \<Rightarrow> if c = CHR ''-'' then - int (digits_value cs) else int (digits_value str))"

text \<open>
  What a template literal \<^verbatim>\<open>${x}\<close> renders. In the modelled code only strings, numbers
  and falsy values reach a template literal; the last equation is the rendering of a
  plain object.
\<close>

fun template_string :: "jsval \<Rightarrow> string" where
  "template_string JUndefined = ''undefined''"
| "template_string JNull = ''null''"
| "template_string (JBool b) = (if b then ''true'' else ''false'')"
| "template_string (JNum n) = number_to_string n"
| "template_string (JStr s) = s"
| "template_string v = ''[object Object]''"


section \<open>Effects: thrown errors, the console and host method calls\<close>

text \<open>
  A call either returns or throws. What it does to the outside world is recorded in a
  trace: each \<^verbatim>\<open>console.warn(...data)\<close> issued through \<^verbatim>\<open>warnMessage\<close>, and each
  mutating method invoked on a host object (\<^verbatim>\<open>setValue\<close>, \<^verbatim>\<open>setVisible\<close>,
  \<^verbatim>\<open>addOnChange\<close>, ...), in the order they happen.
\<close>

datatype error = TypeError | Error string

datatype event =
    Warn "jsval list"
  | HostCall hostobj string "jsval list"

type_synonym trace = "event list"

type_synonym 'a io = "trace \<Rightarrow> (error + 'a) \<times> trace"

definition io_ret :: "'a \<Rightarrow> 'a io" where
  "io_ret a = (\<lambda>t. (Inr a, t))"

definition io_throw :: "error \<Rightarrow> 'a io" where
  "io_throw e = (\<lambda>t. (Inl e, t))"

definition io_bind :: "'a io \<Rightarrow> ('a \<Rightarrow> 'b io) \<Rightarrow> 'b io" where
  "io_bind m f = (\<lambda>t. case m t of (Inl e, t') \<Rightarrow> (Inl e, t') | (Inr a, t') \<Rightarrow> f a t')"

text \<open>\<^verbatim>\<open>logger.ts\<close>: \<^verbatim>\<open>warnMessage(...data)\<close> forwards its arguments to \<^verbatim>\<open>console.warn\<close>.\<close>

definition logMessage :: "(jsval list \<Rightarrow> unit io) \<Rightarrow> jsval list \<Rightarrow> unit io" where
  "logMessage logger data = logger data"

definition console_warn :: "jsval list \<Rightarrow> unit io" where
  "console_warn data = (\<lambda>t. (Inr (), t @ [Warn data]))"

definition warnMessage :: "jsval list \<Rightarrow> unit io" where
  "warnMessage data = logMessage console_warn data"

text \<open>
  \<^verbatim>\<open>recv.m(args)\<close> for a mutating host method: a \<^verbatim>\<open>TypeError\<close> unless the receiver is an
  object whose property \<^verbatim>\<open>m\<close> is a function; otherwise the call is recorded.
\<close>

definition call_method :: "jsval \<Rightarrow> string \<Rightarrow> jsval list \<Rightarrow> unit io" where
  "call_method recv m args =
     (case recv of
        JObj ob \<Rightarrow> if m \<in> set (fn_props ob) then (\<lambda>t. (Inr (), t @ [HostCall ob m args]))
                   else io_throw TypeError
      | _ \<Rightarrow> io_throw TypeError)"

text \<open>
  \<^verbatim>\<open>recv.m(...)\<close> for a host method that only reads: same failure, and the answer is what
  the host gives (\<open>impl\<close>).
\<close>

definition call_reader :: "jsval \<Rightarrow> string \<Rightarrow> (hostobj \<Rightarrow> jsval) \<Rightarrow> jsval io" where
  "call_reader recv m impl =
     (case recv of
        JObj ob \<Rightarrow> if m \<in> set (fn_props ob) then io_ret (impl ob) else io_throw TypeError
      | _ \<Rightarrow> io_throw TypeError)"

text \<open>\<^verbatim>\<open>xs.forEach(f)\<close> and \<^verbatim>\<open>for (const x of xs) f(x)\<close>: in order, stopping at a throw.\<close>

fun forEach :: "jsval list \<Rightarrow> (jsval \<Rightarrow> unit io) \<Rightarrow> unit io" where
  "forEach [] f t = (Inr (), t)"
| "forEach (x # xs) f t =
     (case f x t of (Inl e, t') \<Rightarrow> (Inl e, t') | (Inr u, t') \<Rightarrow> forEach xs f t')"

text \<open>\<^verbatim>\<open>xs.map(f)\<close> with a callback that may throw.\<close>

fun map_io :: "(jsval \<Rightarrow> jsval io) \<Rightarrow> jsval list \<Rightarrow> (jsval list) io" where
  "map_io f [] t = (Inr [], t)"
| "map_io f (x # xs) t =
     (case f x t of
        (Inl e, t') \<Rightarrow> (Inl e, t')
      | (Inr y, t') \<Rightarrow>
          (case map_io f xs t' of (Inl e, t'') \<Rightarrow> (Inl e, t'') | (Inr ys, t'') \<Rightarrow> (Inr (y # ys), t'')))"


section \<open>Capability guards (CheckTypes)\<close>

definition isObject :: "jsval \<Rightarrow> bool" where
  "isObject obj = (typeof obj = ''object'' \<and> \<not> is_null obj)"

text \<open>
  \<^verbatim>\<open>typeof (obj as any).p === "function"\<close>, evaluated after \<open>isObject\<close> has held. An
  array is an object too, but none of the property names the guards test is an array
  method.
\<close>

definition has_function :: "jsval \<Rightarrow> string \<Rightarrow> bool" where
  "has_function obj p = (case obj of JObj ob \<Rightarrow> p \<in> set (fn_props ob) | _ \<Rightarrow> False)"

definition isAttribute :: "jsval \<Rightarrow> bool" where
  "isAttribute obj = (isObject obj \<and> has_function obj ''getAttributeType'')"

definition isTabControl :: "jsval \<Rightarrow> bool" where
  "isTabControl obj = (isObject obj \<and> has_function obj ''addTabStateChange'')"

definition isControl :: "jsval \<Rightarrow> bool" where
  "isControl obj = (isObject obj \<and> has_function obj ''getControlType'')"

definition isStandardControl :: "jsval \<Rightarrow> bool" where
  "isStandardControl obj = (isObject obj \<and> has_function obj ''clearNotification'')"

definition isLookupControl :: "jsval \<Rightarrow> bool" where
  "isLookupControl obj = (isObject obj \<and> has_function obj ''addOnLookupTagClick'')"

definition isDateControl :: "jsval \<Rightarrow> bool" where
  "isDateControl obj = (isObject obj \<and> has_function obj ''getShowTime'')"

definition isOptionSetControl :: "jsval \<Rightarrow> bool" where
  "isOptionSetControl obj = (isObject obj \<and> has_function obj ''addOption'')"

definition isGridControl :: "jsval \<Rightarrow> bool" where
  "isGridControl obj = (isObject obj \<and> has_function obj ''getGrid'')"

definition isIframeControl :: "jsval \<Rightarrow> bool" where
  "isIframeControl obj = (isObject obj \<and> has_function obj ''getContentWindow'')"

definition isKbSearchControl :: "jsval \<Rightarrow> bool" where
  "isKbSearchControl obj = (isObject obj \<and> has_function obj ''addOnPostSearch'')"

definition isExecutionContext :: "jsval \<Rightarrow> bool" where
  "isExecutionContext context = (isObject context \<and> has_function context ''getFormContext'')"

definition isControlCanSetVisible :: "jsval \<Rightarrow> bool" where
  "isControlCanSetVisible context = (isControl context \<and> has_function context ''setVisible'')"

definition isControlCanSetDisabled :: "jsval \<Rightarrow> bool" where
  "isControlCanSetDisabled context = (isControl context \<and> has_function context ''setDisabled'')"


section \<open>The generic engines of PrimaryControl\<close>

subsection \<open>setToObject\<close>

text \<open>
  The branches of \<^verbatim>\<open>setToObject\<close> for an input that is not an array. The string/number
  branch calls \<^verbatim>\<open>valueApplier(component, value)\<close> under \<^verbatim>\<open>if (!component)\<close>, as the
  source has it.
\<close>

definition setToObject_key ::
  "jsval \<Rightarrow> jsval \<Rightarrow> (jsval \<Rightarrow> jsval io) \<Rightarrow> (jsval \<Rightarrow> jsval \<Rightarrow> unit io) \<Rightarrow> unit io" where
  "setToObject_key input val getter valueApplier =
     io_bind (getter input) (\<lambda>component.
       if \<not> truthy component then valueApplier component val else io_ret ())"

definition setToObject_delegate ::
  "jsval \<Rightarrow> jsval \<Rightarrow> (jsval \<Rightarrow> jsval io) \<Rightarrow> (jsval \<Rightarrow> jsval \<Rightarrow> unit io) \<Rightarrow> unit io" where
  "setToObject_delegate input val getterAll valueApplier =
     io_bind (getterAll input) (\<lambda>components.
       case components of
         JArr cs \<Rightarrow> forEach cs (\<lambda>control. valueApplier control val)
       | _ \<Rightarrow> io_throw TypeError)"

definition setToObject_instance ::
  "jsval \<Rightarrow> jsval \<Rightarrow> (jsval \<Rightarrow> jsval \<Rightarrow> unit io) \<Rightarrow> (jsval \<Rightarrow> bool) \<Rightarrow> unit io" where
  "setToObject_instance input val valueApplier isValid =
     (if isValid input then valueApplier input val else io_ret ())"

fun setToObject ::
  "jsval \<Rightarrow> jsval \<Rightarrow> (jsval \<Rightarrow> jsval io) \<Rightarrow> (jsval \<Rightarrow> jsval io) \<Rightarrow>
   (jsval \<Rightarrow> jsval \<Rightarrow> unit io) \<Rightarrow> (jsval \<Rightarrow> bool) \<Rightarrow> unit io"
and setToObject_each ::
  "jsval list \<Rightarrow> jsval \<Rightarrow> (jsval \<Rightarrow> jsval io) \<Rightarrow> (jsval \<Rightarrow> jsval io) \<Rightarrow>
   (jsval \<Rightarrow> jsval \<Rightarrow> unit io) \<Rightarrow> (jsval \<Rightarrow> bool) \<Rightarrow> unit io"
where
  "setToObject JUndefined val getter getterAll valueApplier isValid t = (Inr (), t)"
| "setToObject (JArr xs) val getter getterAll valueApplier isValid t =
     setToObject_each xs val getter getterAll valueApplier isValid t"
| "setToObject (JStr s) val getter getterAll valueApplier isValid t =
     setToObject_key (JStr s) val getter valueApplier t"
| "setToObject (JNum n) val getter getterAll valueApplier isValid t =
     setToObject_key (JNum n) val getter valueApplier t"
| "setToObject (JFun f) val getter getterAll valueApplier isValid t =
     setToObject_delegate (JFun f) val getterAll valueApplier t"
| "setToObject JNull val getter getterAll valueApplier isValid t =
     setToObject_instance JNull val valueApplier isValid t"
| "setToObject (JBool b) val getter getterAll valueApplier isValid t =
     setToObject_instance (JBool b) val valueApplier isValid t"
| "setToObject (JObj ob) val getter getterAll valueApplier isValid t =
     setToObject_instance (JObj ob) val valueApplier isValid t"
| "setToObject_each [] val getter getterAll valueApplier isValid t = (Inr (), t)"
| "setToObject_each (x # xs) val getter getterAll valueApplier isValid t =
     (case setToObject x val getter getterAll valueApplier isValid t of
        (Inl e, t') \<Rightarrow> (Inl e, t')
      | (Inr u, t') \<Rightarrow> setToObject_each xs val getter getterAll valueApplier isValid t')"

subsection \<open>getObject\<close>

definition getObject ::
  "jsval \<Rightarrow> (jsval \<Rightarrow> jsval io) \<Rightarrow> (jsval \<Rightarrow> jsval io) \<Rightarrow> jsval io" where
  "getObject input resolver resolverAll =
     (case input of
        JUndefined \<Rightarrow> io_ret JNull
      | JArr xs \<Rightarrow>
          io_bind (map_io resolver xs) (\<lambda>objects.
            io_ret (JArr (filter (\<lambda>object. \<not> is_null object) objects)))
      | JStr s \<Rightarrow>
          io_bind (resolver input) (\<lambda>control.
            if \<not> truthy control then io_ret JNull else io_ret control)
      | JNum n \<Rightarrow>
          io_bind (resolver input) (\<lambda>control.
            if \<not> truthy control then io_ret JNull else io_ret control)
      | _ \<Rightarrow> resolverAll input)"

subsection \<open>addHandler\<close>

definition addHandler_key ::
  "jsval \<Rightarrow> (jsval \<Rightarrow> jsval io) \<Rightarrow> (jsval \<Rightarrow> unit io) \<Rightarrow> string \<Rightarrow> unit io" where
  "addHandler_key input get apply addHandlerName =
     io_bind (get input) (\<lambda>item.
       if truthy item then apply item
       else warnMessage
         [JStr (''[PrimaryControl - Warning] '' @ addHandlerName @ '': Attribute '' @ [CHR 0x22]
                @ template_string input @ [CHR 0x22] @ '' not found.'')])"

definition addHandler_delegate ::
  "jsval \<Rightarrow> (jsval \<Rightarrow> jsval io) \<Rightarrow> (jsval \<Rightarrow> unit io) \<Rightarrow> unit io" where
  "addHandler_delegate input getDelegate apply =
     io_bind (getDelegate input) (\<lambda>items.
       case items of
         JArr its \<Rightarrow> forEach its apply
       | JStr s \<Rightarrow> forEach (map (\<lambda>c. JStr [c]) s) apply
       | _ \<Rightarrow> io_throw TypeError)"

definition addHandler_instance ::
  "jsval \<Rightarrow> (jsval \<Rightarrow> unit io) \<Rightarrow> (jsval \<Rightarrow> bool) \<Rightarrow> string \<Rightarrow> unit io" where
  "addHandler_instance input apply isValid addHandlerName =
     (if isValid input then apply input
      else warnMessage
        [JStr (''[PrimaryControl - Warning] '' @ addHandlerName @ '': Unhandled input type (''
               @ typeof input @ '')''), input])"

fun addHandler ::
  "jsval \<Rightarrow> (jsval \<Rightarrow> jsval io) \<Rightarrow> (jsval \<Rightarrow> jsval io) \<Rightarrow> (jsval \<Rightarrow> unit io) \<Rightarrow>
   (jsval \<Rightarrow> bool) \<Rightarrow> string \<Rightarrow> unit io"
and addHandler_each ::
  "jsval list \<Rightarrow> (jsval \<Rightarrow> jsval io) \<Rightarrow> (jsval \<Rightarrow> jsval io) \<Rightarrow> (jsval \<Rightarrow> unit io) \<Rightarrow>
   (jsval \<Rightarrow> bool) \<Rightarrow> string \<Rightarrow> unit io"
where
  "addHandler JUndefined get getDelegate apply isValid addHandlerName t =
     warnMessage
       [JStr (''[PrimaryControl - Warning] '' @ addHandlerName @ '': Unsupported input:''),
        JUndefined] t"
| "addHandler (JArr xs) get getDelegate apply isValid addHandlerName t =
     addHandler_each xs get getDelegate apply isValid addHandlerName t"
| "addHandler (JStr s) get getDelegate apply isValid addHandlerName t =
     addHandler_key (JStr s) get apply addHandlerName t"
| "addHandler (JNum n) get getDelegate apply isValid addHandlerName t =
     addHandler_key (JNum n) get apply addHandlerName t"
| "addHandler (JFun f) get getDelegate apply isValid addHandlerName t =
     addHandler_delegate (JFun f) getDelegate apply t"
| "addHandler JNull get getDelegate apply isValid addHandlerName t =
     addHandler_instance JNull apply isValid addHandlerName t"
| "addHandler (JBool b) get getDelegate apply isValid addHandlerName t =
     addHandler_instance (JBool b) apply isValid addHandlerName t"
| "addHandler (JObj ob) get getDelegate apply isValid addHandlerName t =
     addHandler_instance (JObj ob) apply isValid addHandlerName t"
| "addHandler_each [] get getDelegate apply isValid addHandlerName t = (Inr (), t)"
| "addHandler_each (x # xs) get getDelegate apply isValid addHandlerName t =
     (case addHandler x get getDelegate apply isValid addHandlerName t of
        (Inl e, t') \<Rightarrow> (Inl e, t')
      | (Inr u, t') \<Rightarrow> addHandler_each xs get getDelegate apply isValid addHandlerName t')"


section \<open>The host form model\<close>

text \<open>
  The Xrm form model is not part of the repository. What its read methods answer is a
  parameter of every facade operation:
  \<^item> \<^verbatim>\<open>formContext.getAttribute(arg)\<close> and \<^verbatim>\<open>formContext.getControl(arg)\<close>, one
    overloaded method each (item or \<^verbatim>\<open>null\<close> for a name or index, an array for a
    delegate);
  \<^item> \<^verbatim>\<open>attribute.getValue()\<close>;
  \<^item> \<^verbatim>\<open>executionContext.getFormContext()\<close>.
\<close>

record xrm =
  host_getAttribute :: "hostobj \<Rightarrow> jsval \<Rightarrow> jsval"
  host_getControl :: "hostobj \<Rightarrow> jsval \<Rightarrow> jsval"
  host_getValue :: "hostobj \<Rightarrow> jsval"
  host_getFormContext :: "hostobj \<Rightarrow> jsval"


section \<open>PrimaryControl and FormContext\<close>

record PrimaryControl =
  formContext :: jsval

record FormContext = PrimaryControl +
  executionContext :: jsval

text \<open>
  A method body reads \<^verbatim>\<open>this\<close>. It is an explicit argument: \<open>Some pc\<close> when the method
  is invoked on an instance or from an arrow function that captured the instance, and
  \<open>None\<close> (\<^verbatim>\<open>undefined\<close>) when the method was taken off the instance as a plain
  function value, as in \<^verbatim>\<open>this.setToObject(input, value, this.getAttribute, ...)\<close>, and
  is then called as \<^verbatim>\<open>getter(input)\<close>. Reading a property of \<^verbatim>\<open>undefined\<close> throws a
  \<^verbatim>\<open>TypeError\<close>.
\<close>

definition getAttribute ::
  "xrm \<Rightarrow> 'a PrimaryControl_scheme option \<Rightarrow> jsval \<Rightarrow> jsval io" where
  "getAttribute H this input =
     (case this of
        None \<Rightarrow> io_throw TypeError
      | Some pc \<Rightarrow>
          getObject input
            (\<lambda>input. call_reader (formContext pc) ''getAttribute'' (\<lambda>fc. host_getAttribute H fc input))
            (\<lambda>input. call_reader (formContext pc) ''getAttribute'' (\<lambda>fc. host_getAttribute H fc input)))"

definition getControl ::
  "xrm \<Rightarrow> 'a PrimaryControl_scheme option \<Rightarrow> jsval \<Rightarrow> jsval io" where
  "getControl H this input =
     (case this of
        None \<Rightarrow> io_throw TypeError
      | Some pc \<Rightarrow>
          getObject input
            (\<lambda>input. call_reader (formContext pc) ''getControl'' (\<lambda>fc. host_getControl H fc input))
            (\<lambda>input. call_reader (formContext pc) ''getControl'' (\<lambda>fc. host_getControl H fc input)))"

text \<open>
  The two accessors of \<^verbatim>\<open>getAttributeValue\<close>:
  \<^verbatim>\<open>(input) => this.formContext.getAttribute(input)?.getValue() ?? null\<close> and
  \<^verbatim>\<open>(input) => this.formContext.getAttribute(input).map(attribute => attribute.getValue())\<close>.
\<close>

definition getValue_resolver :: "xrm \<Rightarrow> 'a PrimaryControl_scheme \<Rightarrow> jsval \<Rightarrow> jsval io" where
  "getValue_resolver H pc input =
     io_bind (call_reader (formContext pc) ''getAttribute'' (\<lambda>fc. host_getAttribute H fc input))
       (\<lambda>attribute.
          case attribute of
            JNull \<Rightarrow> io_ret JNull
          | JUndefined \<Rightarrow> io_ret JNull
          | _ \<Rightarrow> io_bind (call_reader attribute ''getValue'' (host_getValue H))
                   (\<lambda>v. io_ret (nullish_to_null v)))"

definition getValue_resolverAll :: "xrm \<Rightarrow> 'a PrimaryControl_scheme \<Rightarrow> jsval \<Rightarrow> jsval io" where
  "getValue_resolverAll H pc input =
     io_bind (call_reader (formContext pc) ''getAttribute'' (\<lambda>fc. host_getAttribute H fc input))
       (\<lambda>attributes.
          case attributes of
            JArr xs \<Rightarrow>
              io_bind (map_io (\<lambda>attribute. call_reader attribute ''getValue'' (host_getValue H)) xs)
                (\<lambda>vs. io_ret (JArr vs))
          | _ \<Rightarrow> io_throw TypeError)"

definition getAttributeValue ::
  "xrm \<Rightarrow> 'a PrimaryControl_scheme option \<Rightarrow> jsval \<Rightarrow> jsval io" where
  "getAttributeValue H this input =
     (if \<not> truthy input then
        io_bind
          (warnMessage
             [JStr ''[PrimaryControl - Warning] getAttributeValue: Unsupported input type:'', input])
          (\<lambda>u. io_ret JNull)
      else
        (case this of
           None \<Rightarrow> io_throw TypeError
         | Some pc \<Rightarrow> getObject input (getValue_resolver H pc) (getValue_resolverAll H pc)))"

text \<open>
  The setters hand \<^verbatim>\<open>this.getAttribute\<close> (or \<^verbatim>\<open>this.getControl\<close>) to \<^verbatim>\<open>setToObject\<close> as
  a plain function value: inside \<^verbatim>\<open>setToObject\<close> it runs with \<^verbatim>\<open>this\<close> undefined.
\<close>

definition setAttributeValue ::
  "xrm \<Rightarrow> 'a PrimaryControl_scheme option \<Rightarrow> jsval \<Rightarrow> jsval \<Rightarrow> unit io" where
  "setAttributeValue H this input val =
     (if \<not> truthy input then
        warnMessage
          [JStr ''[PrimaryControl - Warning] getAttributeValue: Unsupported input type:'', input]
      else
        (case this of
           None \<Rightarrow> io_throw TypeError
         | Some pc \<Rightarrow>
             setToObject input val
               (getAttribute H (None :: 'a PrimaryControl_scheme option))
               (getAttribute H (None :: 'a PrimaryControl_scheme option))
               (\<lambda>input val. call_method input ''setValue'' [val])
               isAttribute))"

definition setRequiredLevel ::
  "xrm \<Rightarrow> 'a PrimaryControl_scheme option \<Rightarrow> jsval \<Rightarrow> jsval \<Rightarrow> unit io" where
  "setRequiredLevel H this input requirementLevel =
     (if \<not> truthy input then
        warnMessage
          [JStr ''[PrimaryControl - Warning] setRequiredLevel: Unsupported input type:'', input]
      else
        (case this of
           None \<Rightarrow> io_throw TypeError
         | Some pc \<Rightarrow>
             setToObject input requirementLevel
               (getAttribute H (None :: 'a PrimaryControl_scheme option))
               (getAttribute H (None :: 'a PrimaryControl_scheme option))
               (\<lambda>control requirementLevel. call_method control ''setRequiredLevel'' [requirementLevel])
               isAttribute))"

definition setOptional ::
  "xrm \<Rightarrow> 'a PrimaryControl_scheme option \<Rightarrow> jsval \<Rightarrow> unit io" where
  "setOptional H this input =
     (if \<not> truthy input then
        warnMessage
          [JStr ''[PrimaryControl - Warning] setOptional: Unsupported input type:'', input]
      else
        (case this of
           None \<Rightarrow> io_throw TypeError
         | Some pc \<Rightarrow>
             setToObject input (JStr ''none'')
               (getAttribute H (None :: 'a PrimaryControl_scheme option))
               (getAttribute H (None :: 'a PrimaryControl_scheme option))
               (\<lambda>control requirementLevel. call_method control ''setRequiredLevel'' [requirementLevel])
               isAttribute))"

definition setRecommended ::
  "xrm \<Rightarrow> 'a PrimaryControl_scheme option \<Rightarrow> jsval \<Rightarrow> unit io" where
  "setRecommended H this input =
     (if \<not> truthy input then
        warnMessage
          [JStr ''[PrimaryControl - Warning] setRecommended: Unsupported input type:'', input]
      else
        (case this of
           None \<Rightarrow> io_throw TypeError
         | Some pc \<Rightarrow>
             setToObject input (JStr ''recommended'')
               (getAttribute H (None :: 'a PrimaryControl_scheme option))
               (getAttribute H (None :: 'a PrimaryControl_scheme option))
               (\<lambda>control requirementLevel. call_method control ''setRequiredLevel'' [requirementLevel])
               isAttribute))"

definition setMandatory ::
  "xrm \<Rightarrow> 'a PrimaryControl_scheme option \<Rightarrow> jsval \<Rightarrow> unit io" where
  "setMandatory H this input =
     (if \<not> truthy input then
        warnMessage
          [JStr ''[PrimaryControl - Warning] setMandatory: Unsupported input type:'', input]
      else
        (case this of
           None \<Rightarrow> io_throw TypeError
         | Some pc \<Rightarrow>
             setToObject input (JStr ''required'')
               (getAttribute H (None :: 'a PrimaryControl_scheme option))
               (getAttribute H (None :: 'a PrimaryControl_scheme option))
               (\<lambda>control requirementLevel. call_method control ''setRequiredLevel'' [requirementLevel])
               isAttribute))"

definition setVisible ::
  "xrm \<Rightarrow> 'a PrimaryControl_scheme option \<Rightarrow> jsval \<Rightarrow> jsval \<Rightarrow> unit io" where
  "setVisible H this input isVisible =
     (if \<not> truthy input then
        warnMessage
          [JStr ''[PrimaryControl - Warning] setVisible: Unsupported input type:'', input]
      else
        (case this of
           None \<Rightarrow> io_throw TypeError
         | Some pc \<Rightarrow>
             setToObject input isVisible
               (getControl H (None :: 'a PrimaryControl_scheme option))
               (getControl H (None :: 'a PrimaryControl_scheme option))
               (\<lambda>control isVisible. call_method control ''setVisible'' [isVisible])
               isControlCanSetVisible))"

definition setDisabled ::
  "xrm \<Rightarrow> 'a PrimaryControl_scheme option \<Rightarrow> jsval \<Rightarrow> jsval \<Rightarrow> unit io" where
  "setDisabled H this input isDisabled =
     (if \<not> truthy input then
        warnMessage
          [JStr ''[PrimaryControl - Warning] setDisabled: Unsupported input type:'', input]
      else
        (case this of
           None \<Rightarrow> io_throw TypeError
         | Some pc \<Rightarrow>
             setToObject input isDisabled
               (getControl H (None :: 'a PrimaryControl_scheme option))
               (getControl H (None :: 'a PrimaryControl_scheme option))
               (\<lambda>control isDisabled. call_method control ''setDisabled'' [isDisabled])
               isControlCanSetDisabled))"

text \<open>
  \<^verbatim>\<open>addOnChange\<close> passes arrow functions, which keep the instance:
  \<^verbatim>\<open>(input) => this.getAttribute(input)\<close>.
\<close>

definition addOnChange ::
  "xrm \<Rightarrow> 'a PrimaryControl_scheme option \<Rightarrow> jsval \<Rightarrow> jsval \<Rightarrow> unit io" where
  "addOnChange H this input handler =
     (case this of
        None \<Rightarrow> io_throw TypeError
      | Some pc \<Rightarrow>
          addHandler input
            (\<lambda>input. getAttribute H (Some pc) input)
            (\<lambda>input. getAttribute H (Some pc) input)
            (\<lambda>attribute. call_method attribute ''addOnChange'' [handler])
            isAttribute
            ''addOnChange'')"



section \<open>Provider.from\<close>

datatype wrapper = IsFormContext FormContext | IsPrimaryControl PrimaryControl

definition new_PrimaryControl :: "jsval \<Rightarrow> PrimaryControl" where
  "new_PrimaryControl context = \<lparr>formContext = context\<rparr>"

text \<open>\<^verbatim>\<open>super(context.getFormContext()); this.executionContext = context;\<close>\<close>

definition new_FormContext :: "xrm \<Rightarrow> jsval \<Rightarrow> FormContext io" where
  "new_FormContext H context =
     io_bind (call_reader context ''getFormContext'' (host_getFormContext H))
       (\<lambda>fc. io_ret \<lparr>formContext = fc, executionContext = context\<rparr>)"

definition Provider_from :: "xrm \<Rightarrow> jsval \<Rightarrow> wrapper io" where
  "Provider_from H context =
     (if truthy context then
        (if isExecutionContext context then
           io_bind (new_FormContext H context) (\<lambda>w. io_ret (IsFormContext w))
         else io_ret (IsPrimaryControl (new_PrimaryControl context)))
      else
        io_throw (Error (''[D365 Form Scripting Framework - Provider] Invalid context provided. Provided context: ''
                         @ template_string context)))"


section \<open>The value read for a key\<close>

text \<open>
  What \<^verbatim>\<open>formContext.getAttribute(k)?.getValue() ?? null\<close> evaluates to when it does not
  throw, and the keys on which it does not throw: the host answers \<^verbatim>\<open>null\<close>,
  \<^verbatim>\<open>undefined\<close> or an object that has \<^verbatim>\<open>getValue\<close>.
\<close>

definition read_value :: "xrm \<Rightarrow> hostobj \<Rightarrow> jsval \<Rightarrow> jsval" where
  "read_value H fc k =
     (case host_getAttribute H fc k of
        JObj a \<Rightarrow> nullish_to_null (host_getValue H a)
      | _ \<Rightarrow> JNull)"

definition readable :: "xrm \<Rightarrow> hostobj \<Rightarrow> jsval \<Rightarrow> bool" where
  "readable H fc k =
     (case host_getAttribute H fc k of
        JObj a \<Rightarrow> ''getValue'' \<in> set (fn_props a)
      | JNull \<Rightarrow> True
      | JUndefined \<Rightarrow> True
      | _ \<Rightarrow> False)"


section \<open>A sample host form\<close>

text \<open>
  Modelled from the spec: the host's named collection (\<open>NamedCollection\<close> of the data
  model), which the repository consumes and does not implement. A single lookup by name
  or by index answers the item or \<^verbatim>\<open>null\<close>; a lookup by delegate answers the matching
  items in collection order. It serves to instantiate the host parameter at concrete
  forms.
\<close>

definition collection_get :: "hostobj list \<Rightarrow> jsval \<Rightarrow> jsval" where
  "collection_get items arg =
     (case arg of
        JStr s \<Rightarrow> (case find (\<lambda>it. oname it = s) items of Some it \<Rightarrow> JObj it | None \<Rightarrow> JNull)
      | JNum n \<Rightarrow>
          (if 0 \<le> int_of_jsint n \<and> nat (int_of_jsint n) < length items
           then JObj (items ! nat (int_of_jsint n)) else JNull)
      | JFun f \<Rightarrow> JArr (map JObj (filter f items))
      | _ \<Rightarrow> JArr (map JObj items))"

definition attribute_methods :: "string list" where
  "attribute_methods =
     [''getAttributeType'', ''getName'', ''getValue'', ''setValue'', ''setRequiredLevel'', ''addOnChange'']"

definition control_methods :: "string list" where
  "control_methods = [''getControlType'', ''getName'', ''setVisible'', ''setDisabled'']"

definition firstname_attr :: hostobj where
  "firstname_attr = \<lparr>oname = ''firstname'', fn_props = attribute_methods\<rparr>"

definition lastname_attr :: hostobj where
  "lastname_attr = \<lparr>oname = ''lastname'', fn_props = attribute_methods\<rparr>"

definition age_attr :: hostobj where
  "age_attr = \<lparr>oname = ''age'', fn_props = attribute_methods\<rparr>"

definition firstname_ctrl :: hostobj where
  "firstname_ctrl = \<lparr>oname = ''firstname'', fn_props = control_methods\<rparr>"

definition parentaccount_ctrl :: hostobj where
  "parentaccount_ctrl =
     \<lparr>oname = ''parentaccountid'',
      fn_props = control_methods @ [''addOnLookupTagClick'', ''addPreSearch'']\<rparr>"

definition sample_form :: hostobj where
  "sample_form = \<lparr>oname = ''form'', fn_props = [''getAttribute'', ''getControl'']\<rparr>"

definition sample_event :: hostobj where
  "sample_event = \<lparr>oname = ''event'', fn_props = [''getFormContext'', ''getDepth'']\<rparr>"

definition sample_value :: "hostobj \<Rightarrow> jsval" where
  "sample_value a =
     (if oname a = ''firstname'' then JStr ''Ada''
      else if oname a = ''age'' then JNum 0
      else JNull)"

definition sample_host :: xrm where
  "sample_host =
     \<lparr>host_getAttribute = (\<lambda>fc. collection_get [firstname_attr, lastname_attr, age_attr]),
      host_getControl = (\<lambda>fc. collection_get [firstname_ctrl, parentaccount_ctrl]),
      host_getValue = sample_value,
      host_getFormContext = (\<lambda>ec. JObj sample_form)\<rparr>"

definition sample_pc :: PrimaryControl where
  "sample_pc = \<lparr>formContext = JObj sample_form\<rparr>"


section \<open>Basic facts about the effect combinators\<close>

lemma io_bind_ret [simp]: "io_bind (io_ret a) f t = f a t"
  by (simp add: io_bind_def io_ret_def)

lemma io_bind_throw [simp]: "io_bind (io_throw e) f t = (Inl e, t)"
  by (simp add: io_bind_def io_throw_def)

lemma io_ret_apply [simp]: "io_ret a t = (Inr a, t)"
  by (simp add: io_ret_def)

lemma io_throw_apply [simp]: "io_throw e t = (Inl e, t)"
  by (simp add: io_throw_def)

lemma warnMessage_apply [simp]: "warnMessage data t = (Inr (), t @ [Warn data])"
  by (simp add: warnMessage_def logMessage_def console_warn_def)

lemma io_bind_warn [simp]: "io_bind (warnMessage data) f t = f () (t @ [Warn data])"
  by (simp add: io_bind_def)


subsection \<open>Numbers and their printed form\<close>

lemma int_of_jsint_of_int [simp]: "\<bar>i\<bar> < 2 ^ 53 \<Longrightarrow> int_of_jsint (jsint_of_int i) = i"
  by (simp add: jsint_of_int_inverse)

lemma int_of_jsint_zero [simp]: "int_of_jsint 0 = 0"
  by (simp add: zero_jsint_def)

lemma digit_value_digit_char:
  assumes "d < 10"
  shows "digit_value (digit_char d) = d"
proof -
  from assms have "d \<in> {0, 1, 2, 3, 4, 5, 6, 7, 8, 9}"
    by auto
  then show ?thesis
    by (auto simp: digit_value_def digit_char_def)
qed

lemma digits_value_snoc: "digits_value (ds @ [c]) = 10 * digits_value ds + digit_value c"
  by (simp add: digits_value_def)

lemma digits_value_decimal: "digits_value (decimal n) = n"
proof (induction n rule: decimal.induct)
  case (1 n)
  show ?case
  proof (cases "10 \<le> n")
    case True
    then have "decimal n = decimal (n div 10) @ [digit_char (n mod 10)]"
      by (subst decimal.simps) simp
    then show ?thesis
      using "1.IH" [OF True] by (simp add: digits_value_snoc digit_value_digit_char)
  next
    case False
    then have "decimal n = [] @ [digit_char n]"
      by (subst decimal.simps) simp
    then show ?thesis
      using False by (simp only: digits_value_snoc) (simp add: digits_value_def digit_value_digit_char)
  qed
qed

lemma digit_char_not_minus: "d < 10 \<Longrightarrow> digit_char d \<noteq> CHR ''-''"
proof -
  assume "d < 10"
  then have "d \<in> {0, 1, 2, 3, 4, 5, 6, 7, 8, 9}"
    by auto
  then show ?thesis
    by (auto simp: digit_char_def)
qed

lemma decimal_starts_with_digit: "\<exists>c cs. decimal n = c # cs \<and> c \<noteq> CHR ''-''"
proof (induction n rule: decimal.induct)
  case (1 n)
  show ?case
  proof (cases "10 \<le> n")
    case True
    then have "decimal n = decimal (n div 10) @ [digit_char (n mod 10)]"
      by (subst decimal.simps) simp
    then show ?thesis
      using "1.IH" [OF True] by auto
  next
    case False
    then have "decimal n = [digit_char n]"
      by (subst decimal.simps) simp
    then show ?thesis
      using False by (simp add: digit_char_not_minus)
  qed
qed

text \<open>The printed form of a number names it: reading it back gives the number.\<close>

lemma number_value_number_to_string: "number_value (number_to_string n) = int_of_jsint n"
proof (cases "0 \<le> int_of_jsint n")
  case True
  obtain c cs where "decimal (nat (int_of_jsint n)) = c # cs" and "c \<noteq> CHR ''-''"
    using decimal_starts_with_digit by blast
  then have "number_value (decimal (nat (int_of_jsint n))) = int (digits_value (decimal (nat (int_of_jsint n))))"
    by (simp add: number_value_def)
  then show ?thesis
    using True by (simp add: number_to_string_def digits_value_decimal)
next
  case False
  then show ?thesis
    by (simp add: number_to_string_def number_value_def digits_value_decimal)
qed

lemma number_to_string_examples:
  "number_to_string 0 = ''0'' \<and> number_to_string (jsint_of_int 12) = ''12''
   \<and> number_to_string (jsint_of_int (- 5)) = ''-5''"
  by (simp add: number_to_string_def decimal.simps digit_char_def)


section \<open>Capability guards reject non-objects\<close>

text \<open>
  C7. Each of the guards \<open>isAttribute\<close>, \<open>isTabControl\<close>, \<open>isControl\<close>,
  \<open>isStandardControl\<close>, \<open>isLookupControl\<close>, \<open>isGridControl\<close>, \<open>isIframeControl\<close>,
  \<open>isKbSearchControl\<close>, \<open>isControlCanSetVisible\<close>, \<open>isControlCanSetDisabled\<close> and
  \<open>isExecutionContext\<close> answers \<open>False\<close> on \<^verbatim>\<open>null\<close> and on every value whose
  \<^verbatim>\<open>typeof\<close> is not \<^verbatim>\<open>"object"\<close>.
\<close>

theorem guards_reject_null_and_non_objects:
  assumes "v = JNull \<or> typeof v \<noteq> ''object''"
  shows "\<not> isAttribute v \<and> \<not> isTabControl v \<and> \<not> isControl v \<and> \<not> isStandardControl v
       \<and> \<not> isLookupControl v \<and> \<not> isGridControl v \<and> \<not> isIframeControl v
       \<and> \<not> isKbSearchControl v \<and> \<not> isControlCanSetVisible v \<and> \<not> isControlCanSetDisabled v
       \<and> \<not> isExecutionContext v"
proof -
  from assms have "\<not> isObject v"
    by (cases v) (simp_all add: isObject_def)
  then show ?thesis
    by (simp add: isAttribute_def isTabControl_def isControl_def isStandardControl_def
        isLookupControl_def isGridControl_def isIframeControl_def isKbSearchControl_def
        isControlCanSetVisible_def isControlCanSetDisabled_def isExecutionContext_def)
qed

theorem guards_reject_null_and_non_objects_witness:
  "typeof (JStr ''firstname'') = ''string''
   \<and> \<not> isAttribute JNull \<and> \<not> isExecutionContext JNull \<and> \<not> isControlCanSetVisible JNull
   \<and> \<not> isAttribute (JStr ''firstname'') \<and> \<not> isControl (JStr ''firstname'')
   \<and> \<not> isTabControl (JStr ''firstname'')"
  using guards_reject_null_and_non_objects [of JNull]
    guards_reject_null_and_non_objects [of "JStr ''firstname''"]
  by simp


section \<open>The falsy-input check of the facade\<close>

text \<open>
  C10, as the code has it. \<open>getAttributeValue\<close>, \<open>setAttributeValue\<close>, \<open>setRequiredLevel\<close>,
  \<open>setOptional\<close>, \<open>setRecommended\<close>, \<open>setMandatory\<close>, \<open>setVisible\<close> and \<open>setDisabled\<close>
  begin with \<^verbatim>\<open>if (!input)\<close>. When index \<open>0\<close> or the empty name (any falsy value) is the
  whole specifier, each emits one warning carrying the input and returns (\<^verbatim>\<open>null\<close> for
  the getter) without consulting the host: nothing is looked up and no host method is
  called, whatever the collection holds at index \<open>0\<close>.
\<close>

theorem falsy_input_is_unsupported:
  assumes "\<not> truthy input"
  shows "getAttributeValue H this input t =
           (Inr JNull, t @ [Warn [JStr ''[PrimaryControl - Warning] getAttributeValue: Unsupported input type:'', input]])
       \<and> setAttributeValue H this input val t =
           (Inr (), t @ [Warn [JStr ''[PrimaryControl - Warning] getAttributeValue: Unsupported input type:'', input]])
       \<and> setRequiredLevel H this input val t =
           (Inr (), t @ [Warn [JStr ''[PrimaryControl - Warning] setRequiredLevel: Unsupported input type:'', input]])
       \<and> setOptional H this input t =
           (Inr (), t @ [Warn [JStr ''[PrimaryControl - Warning] setOptional: Unsupported input type:'', input]])
       \<and> setRecommended H this input t =
           (Inr (), t @ [Warn [JStr ''[PrimaryControl - Warning] setRecommended: Unsupported input type:'', input]])
       \<and> setMandatory H this input t =
           (Inr (), t @ [Warn [JStr ''[PrimaryControl - Warning] setMandatory: Unsupported input type:'', input]])
       \<and> setVisible H this input val t =
           (Inr (), t @ [Warn [JStr ''[PrimaryControl - Warning] setVisible: Unsupported input type:'', input]])
       \<and> setDisabled H this input val t =
           (Inr (), t @ [Warn [JStr ''[PrimaryControl - Warning] setDisabled: Unsupported input type:'', input]])"
  using assms
  by (simp add: getAttributeValue_def setAttributeValue_def setRequiredLevel_def setOptional_def
      setRecommended_def setMandatory_def setVisible_def setDisabled_def)

theorem falsy_input_is_unsupported_witness:
  "host_getAttribute sample_host sample_form (JNum 0) = JObj firstname_attr
   \<and> getAttributeValue sample_host (Some sample_pc) (JNum 0) [] =
       (Inr JNull, [Warn [JStr ''[PrimaryControl - Warning] getAttributeValue: Unsupported input type:'', JNum 0]])
   \<and> setAttributeValue sample_host (Some sample_pc) (JNum 0) (JStr ''John'') [] =
       (Inr (), [Warn [JStr ''[PrimaryControl - Warning] getAttributeValue: Unsupported input type:'', JNum 0]])
   \<and> setVisible sample_host (Some sample_pc) (JNum 0) (JBool False) [] =
       (Inr (), [Warn [JStr ''[PrimaryControl - Warning] setVisible: Unsupported input type:'', JNum 0]])
   \<and> setMandatory sample_host (Some sample_pc) (JStr []) [] =
       (Inr (), [Warn [JStr ''[PrimaryControl - Warning] setMandatory: Unsupported input type:'', JStr []]])"
proof -
  have item0: "host_getAttribute sample_host sample_form (JNum 0) = JObj firstname_attr"
    by (simp add: sample_host_def collection_get_def)
  have zero: "\<not> truthy (JNum 0)" and empty: "\<not> truthy (JStr [])"
    by simp_all
  show ?thesis
    using item0
      falsy_input_is_unsupported [OF zero, of sample_host "Some sample_pc" "[]" "JStr ''John''"]
      falsy_input_is_unsupported [OF zero, of sample_host "Some sample_pc" "[]" "JBool False"]
      falsy_input_is_unsupported [OF empty, of sample_host "Some sample_pc" "[]" "JNull"]
    by simp
qed


text \<open>
  The check is on the whole specifier only. An array is truthy, so index \<open>0\<close> inside an
  array passes the check and \<open>getAttributeValue\<close> looks it up: the claim's "index 0 is
  never resolved by these operations" fails.
\<close>

theorem falsy_input_is_unsupported_counterexample:
  "host_getAttribute sample_host sample_form (JNum 0) = JObj firstname_attr
   \<and> host_getValue sample_host firstname_attr = JStr ''Ada''
   \<and> getAttributeValue sample_host (Some sample_pc) (JArr [JNum 0]) [] =
       (Inr (JArr [JStr ''Ada'']), [])"
  by (simp add: getAttributeValue_def getObject_def getValue_resolver_def sample_pc_def
      sample_form_def call_reader_def sample_host_def collection_get_def firstname_attr_def
      attribute_methods_def sample_value_def io_bind_def)


section \<open>Resolution by getObject\<close>

lemma call_reader_object:
  "m \<in> set (fn_props ob) \<Longrightarrow> call_reader (JObj ob) m impl t = (Inr (impl ob), t)"
  by (simp add: call_reader_def)

lemma call_method_object:
  "m \<in> set (fn_props ob) \<Longrightarrow> call_method (JObj ob) m args t = (Inr (), t @ [HostCall ob m args])"
  by (simp add: call_method_def)

text \<open>A callback that neither throws nor touches the trace makes \<open>map_io\<close> a plain map.\<close>

lemma map_io_pure:
  assumes "\<And>x. x \<in> set xs \<Longrightarrow> f x t = (Inr (g x), t)"
  shows "map_io f xs t = (Inr (map g xs), t)"
  using assms by (induction xs) simp_all

lemma getObject_undefined: "getObject JUndefined resolver resolverAll t = (Inr JNull, t)"
  by (simp add: getObject_def)

lemma getObject_key:
  assumes "key = JStr s \<or> key = JNum n"
    and "resolver key t = (Inr r, t')"
  shows "getObject key resolver resolverAll t = (Inr (if truthy r then r else JNull), t')"
  using assms by (auto simp: getObject_def io_bind_def)

lemma getObject_array:
  assumes "\<And>k. k \<in> set ks \<Longrightarrow> resolver k t = (Inr (r k), t)"
  shows "getObject (JArr ks) resolver resolverAll t =
           (Inr (JArr (filter (\<lambda>object. \<not> is_null object) (map r ks))), t)"
  using map_io_pure [of ks resolver t r] assms
  by (simp add: getObject_def io_bind_def)

text \<open>
  C3. For every name \<open>x\<close>, \<open>getAttribute\<close> and \<open>getControl\<close> return exactly what the
  host's single lookup answers for \<open>x\<close> when that is an item, and \<^verbatim>\<open>null\<close> when it is
  \<^verbatim>\<open>null\<close>; with no specifier (\<^verbatim>\<open>undefined\<close>) they return \<^verbatim>\<open>null\<close> at once. Nothing is
  written to the trace.
\<close>

theorem by_name_resolution:
  assumes "formContext pc = JObj fc"
    and "''getAttribute'' \<in> set (fn_props fc)"
    and "''getControl'' \<in> set (fn_props fc)"
    and "host_getAttribute H fc (JStr x) = JNull \<or> host_getAttribute H fc (JStr x) = JObj a"
    and "host_getControl H fc (JStr x) = JNull \<or> host_getControl H fc (JStr x) = JObj c"
  shows "getAttribute H (Some pc) (JStr x) t = (Inr (host_getAttribute H fc (JStr x)), t)
       \<and> getControl H (Some pc) (JStr x) t = (Inr (host_getControl H fc (JStr x)), t)
       \<and> getAttribute H (Some pc) JUndefined t = (Inr JNull, t)
       \<and> getControl H (Some pc) JUndefined t = (Inr JNull, t)"
proof -
  let ?ra = "\<lambda>input. call_reader (formContext pc) ''getAttribute'' (\<lambda>fc. host_getAttribute H fc input)"
  let ?rc = "\<lambda>input. call_reader (formContext pc) ''getControl'' (\<lambda>fc. host_getControl H fc input)"
  have ra: "?ra (JStr x) t = (Inr (host_getAttribute H fc (JStr x)), t)"
    using assms(1,2) by (simp add: call_reader_object)
  have rc: "?rc (JStr x) t = (Inr (host_getControl H fc (JStr x)), t)"
    using assms(1,3) by (simp add: call_reader_object)
  have "getObject (JStr x) ?ra ?ra t = (Inr (host_getAttribute H fc (JStr x)), t)"
    using getObject_key [of "JStr x" x _ ?ra t _ t ?ra, OF _ ra] assms(4) by auto
  moreover have "getObject (JStr x) ?rc ?rc t = (Inr (host_getControl H fc (JStr x)), t)"
    using getObject_key [of "JStr x" x _ ?rc t _ t ?rc, OF _ rc] assms(5) by auto
  ultimately show ?thesis
    by (simp add: getAttribute_def getControl_def getObject_undefined)
qed

theorem by_name_resolution_witness:
  "getAttribute sample_host (Some sample_pc) (JStr ''firstname'') [] = (Inr (JObj firstname_attr), [])
   \<and> getControl sample_host (Some sample_pc) (JStr ''firstname'') [] = (Inr (JObj firstname_ctrl), [])
   \<and> getAttribute sample_host (Some sample_pc) (JStr ''ghost'') [] = (Inr JNull, [])
   \<and> getControl sample_host (Some sample_pc) (JStr ''ghost'') [] = (Inr JNull, [])
   \<and> getAttribute sample_host (Some sample_pc) JUndefined [] = (Inr JNull, [])"
proof -
  have fc: "formContext sample_pc = JObj sample_form"
    and m1: "''getAttribute'' \<in> set (fn_props sample_form)"
    and m2: "''getControl'' \<in> set (fn_props sample_form)"
    by (simp_all add: sample_pc_def sample_form_def)
  have a1: "host_getAttribute sample_host sample_form (JStr ''firstname'') = JObj firstname_attr"
    and c1: "host_getControl sample_host sample_form (JStr ''firstname'') = JObj firstname_ctrl"
    and a2: "host_getAttribute sample_host sample_form (JStr ''ghost'') = JNull"
    and c2: "host_getControl sample_host sample_form (JStr ''ghost'') = JNull"
    by (simp_all add: sample_host_def collection_get_def firstname_attr_def lastname_attr_def
        age_attr_def firstname_ctrl_def parentaccount_ctrl_def control_methods_def)
  show ?thesis
    using by_name_resolution [OF fc m1 m2, of sample_host "''firstname''" firstname_attr firstname_ctrl "[]"]
      by_name_resolution [OF fc m1 m2, of sample_host "''ghost''" firstname_attr firstname_ctrl "[]"]
      a1 c1 a2 c2
    by simp
qed

text \<open>
  C4. For an array specifier, \<open>getAttribute\<close> and \<open>getControl\<close> look every element up in
  input order and return the answers that are not \<^verbatim>\<open>null\<close>, in that order: an element
  that resolves to \<^verbatim>\<open>null\<close> is left out and the remaining elements are still resolved.
\<close>

theorem array_resolution:
  assumes "formContext pc = JObj fc"
    and "''getAttribute'' \<in> set (fn_props fc)"
    and "''getControl'' \<in> set (fn_props fc)"
  shows "getAttribute H (Some pc) (JArr ks) t =
           (Inr (JArr (filter (\<lambda>object. \<not> is_null object) (map (host_getAttribute H fc) ks))), t)
       \<and> getControl H (Some pc) (JArr ks) t =
           (Inr (JArr (filter (\<lambda>object. \<not> is_null object) (map (host_getControl H fc) ks))), t)"
proof -
  let ?ra = "\<lambda>input. call_reader (formContext pc) ''getAttribute'' (\<lambda>fc. host_getAttribute H fc input)"
  let ?rc = "\<lambda>input. call_reader (formContext pc) ''getControl'' (\<lambda>fc. host_getControl H fc input)"
  have "getObject (JArr ks) ?ra ?ra t =
          (Inr (JArr (filter (\<lambda>object. \<not> is_null object) (map (host_getAttribute H fc) ks))), t)"
    by (rule getObject_array) (simp add: assms(1,2) call_reader_object)
  moreover have "getObject (JArr ks) ?rc ?rc t =
          (Inr (JArr (filter (\<lambda>object. \<not> is_null object) (map (host_getControl H fc) ks))), t)"
    by (rule getObject_array) (simp add: assms(1,3) call_reader_object)
  ultimately show ?thesis
    by (simp add: getAttribute_def getControl_def)
qed

theorem array_resolution_witness:
  "getAttribute sample_host (Some sample_pc) (JArr [JStr ''missing'', JStr ''firstname'']) [] =
     (Inr (JArr [JObj firstname_attr]), [])
   \<and> getAttribute sample_host (Some sample_pc)
       (JArr [JStr ''age'', JStr ''missing'', JNum 0, JStr ''lastname'']) [] =
     (Inr (JArr [JObj age_attr, JObj firstname_attr, JObj lastname_attr]), [])"
proof -
  have fc: "formContext sample_pc = JObj sample_form"
    and m1: "''getAttribute'' \<in> set (fn_props sample_form)"
    and m2: "''getControl'' \<in> set (fn_props sample_form)"
    by (simp_all add: sample_pc_def sample_form_def)
  show ?thesis
    using array_resolution [OF fc m1 m2, of sample_host "[JStr ''missing'', JStr ''firstname'']" "[]"]
      array_resolution [OF fc m1 m2, of sample_host
        "[JStr ''age'', JStr ''missing'', JNum 0, JStr ''lastname'']" "[]"]
    by (simp add: sample_host_def collection_get_def firstname_attr_def lastname_attr_def
        age_attr_def)
qed


section \<open>Handler attachment by addHandler\<close>

text \<open>
  C5. For a name or index that \<open>get\<close> cannot resolve (it answers \<^verbatim>\<open>null\<close>, or any falsy
  value), \<open>addHandler\<close> does not call \<open>apply\<close> and emits exactly one warning. Its text
  contains the operation name and the key: the name itself for a name, and for an index
  its decimal digits, from which the index can be read back. When \<open>get\<close> answers an
  item, \<open>addHandler\<close> does exactly what one call of \<open>apply\<close> on that item does, and warns
  of nothing.
\<close>

theorem addHandler_key_outcome:
  assumes "get key t = (Inr item, t')"
    and "key = JStr s \<and> shown = s \<or> key = JNum n \<and> shown = number_to_string n"
    and "msg = ''[PrimaryControl - Warning] '' @ addHandlerName @ '': Attribute '' @ [CHR 0x22]
               @ shown @ [CHR 0x22] @ '' not found.''"
  shows "(\<not> truthy item \<longrightarrow>
            addHandler key get getDelegate attach isValid addHandlerName t = (Inr (), t' @ [Warn [JStr msg]]))
       \<and> (truthy item \<longrightarrow>
            addHandler key get getDelegate attach isValid addHandlerName t = attach item t')
       \<and> sublist addHandlerName msg
       \<and> sublist shown msg
       \<and> (key = JNum n \<longrightarrow> number_value shown = int_of_jsint n)"
proof -
  have run: "addHandler key get getDelegate attach isValid addHandlerName t =
               addHandler_key key get attach addHandlerName t"
    using assms(2) by auto
  have shown: "template_string key = shown"
    using assms(2) by auto
  have unresolved: "\<not> truthy item \<Longrightarrow> addHandler_key key get attach addHandlerName t = (Inr (), t' @ [Warn [JStr msg]])"
    using assms(1,3) shown by (simp add: addHandler_key_def io_bind_def)
  have resolved: "truthy item \<Longrightarrow> addHandler_key key get attach addHandlerName t = attach item t'"
    using assms(1) by (simp add: addHandler_key_def io_bind_def)
  have "msg = ''[PrimaryControl - Warning] '' @ addHandlerName
                @ ('': Attribute '' @ [CHR 0x22] @ shown @ [CHR 0x22] @ '' not found.'')"
    using assms(3) by simp
  then have op: "sublist addHandlerName msg"
    using sublist_appendI by metis
  have "msg = (''[PrimaryControl - Warning] '' @ addHandlerName @ '': Attribute '' @ [CHR 0x22])
                @ shown @ ([CHR 0x22] @ '' not found.'')"
    using assms(3) by simp
  then have k: "sublist shown msg"
    using sublist_appendI by metis
  have readback: "key = JNum n \<Longrightarrow> number_value shown = int_of_jsint n"
    using assms(2) by (auto simp: number_value_number_to_string)
  show ?thesis
    using run unresolved resolved op k readback by simp
qed

theorem addHandler_key_outcome_witness:
  "addHandler (JStr ''ghost'') (getAttribute sample_host (Some sample_pc))
       (getAttribute sample_host (Some sample_pc))
       (\<lambda>attribute. call_method attribute ''addOnChange'' [JFun (\<lambda>e. True)]) isAttribute ''addOnChange'' [] =
     (Inr (), [Warn [JStr (''[PrimaryControl - Warning] addOnChange: Attribute '' @ [CHR 0x22]
                          @ ''ghost'' @ [CHR 0x22] @ '' not found.'')]])
   \<and> addHandler (JNum (jsint_of_int 7)) (getAttribute sample_host (Some sample_pc))
       (getAttribute sample_host (Some sample_pc))
       (\<lambda>attribute. call_method attribute ''addOnChange'' [JFun (\<lambda>e. True)]) isAttribute ''addOnChange'' [] =
     (Inr (), [Warn [JStr (''[PrimaryControl - Warning] addOnChange: Attribute '' @ [CHR 0x22]
                          @ ''7'' @ [CHR 0x22] @ '' not found.'')]])
   \<and> number_value ''7'' = 7
   \<and> addHandler (JNum (jsint_of_int 1)) (getAttribute sample_host (Some sample_pc))
       (getAttribute sample_host (Some sample_pc))
       (\<lambda>attribute. call_method attribute ''addOnChange'' [JFun (\<lambda>e. True)]) isAttribute ''addOnChange'' [] =
     (Inr (), [HostCall lastname_attr ''addOnChange'' [JFun (\<lambda>e. True)]])"
proof -
  let ?get = "getAttribute sample_host (Some sample_pc)"
  let ?attach = "\<lambda>attribute. call_method attribute ''addOnChange'' [JFun (\<lambda>e. True)]"
  have ghost: "?get (JStr ''ghost'') [] = (Inr JNull, [])"
    by (simp add: getAttribute_def getObject_def sample_pc_def sample_form_def sample_host_def
        call_reader_def collection_get_def firstname_attr_def lastname_attr_def age_attr_def)
  have seven: "?get (JNum (jsint_of_int 7)) [] = (Inr JNull, [])"
    by (simp add: getAttribute_def getObject_def sample_pc_def sample_form_def sample_host_def
        call_reader_def collection_get_def)
  have one: "?get (JNum (jsint_of_int 1)) [] = (Inr (JObj lastname_attr), [])"
    by (simp add: getAttribute_def getObject_def sample_pc_def sample_form_def sample_host_def
        call_reader_def collection_get_def)
  have att: "?attach (JObj lastname_attr) [] =
               (Inr (), [HostCall lastname_attr ''addOnChange'' [JFun (\<lambda>e. True)]])"
    by (simp add: call_method_def lastname_attr_def attribute_methods_def)
  have k1: "JStr ''ghost'' = JStr ''ghost'' \<and> ''ghost'' = ''ghost''
            \<or> JStr ''ghost'' = JNum 0 \<and> ''ghost'' = number_to_string 0"
    by simp
  have p7: "number_to_string (jsint_of_int 7) = ''7''"
    by (simp add: number_to_string_def decimal.simps digit_char_def)
  have k7: "JNum (jsint_of_int 7) = JStr [] \<and> ''7'' = []
            \<or> JNum (jsint_of_int 7) = JNum (jsint_of_int 7) \<and> ''7'' = number_to_string (jsint_of_int 7)"
    using p7 by simp
  have p1: "number_to_string (jsint_of_int 1) = ''1''"
    by (simp add: number_to_string_def decimal.simps digit_char_def)
  have k1n: "JNum (jsint_of_int 1) = JStr [] \<and> ''1'' = []
            \<or> JNum (jsint_of_int 1) = JNum (jsint_of_int 1) \<and> ''1'' = number_to_string (jsint_of_int 1)"
    using p1 by simp
  show ?thesis
    using addHandler_key_outcome [where get = ?get and t = "[]" and item = JNull and t' = "[]"
        and addHandlerName = "''addOnChange''" and isValid = isAttribute and getDelegate = ?get
        and attach = ?attach, OF ghost k1 refl]
      addHandler_key_outcome [where get = ?get and t = "[]" and item = JNull and t' = "[]"
        and addHandlerName = "''addOnChange''" and isValid = isAttribute and getDelegate = ?get
        and attach = ?attach, OF seven k7 refl]
      addHandler_key_outcome [where get = ?get and t = "[]" and item = "JObj lastname_attr"
        and t' = "[]" and addHandlerName = "''addOnChange''" and isValid = isAttribute
        and getDelegate = ?get and attach = ?attach, OF one k1n refl]
      att
    by simp
qed

text \<open>A callback that never throws on the listed items runs once on each, in order.\<close>

lemma forEach_total:
  assumes "\<And>x s. x \<in> set xs \<Longrightarrow> fst (f x s) = Inr ()"
  shows "forEach xs f t = (Inr (), fold (\<lambda>x s. snd (f x s)) xs t)"
  using assms
proof (induction xs arbitrary: t)
  case Nil
  then show ?case by simp
next
  case (Cons x xs)
  have step: "f x t = (Inr (), snd (f x t))"
    using Cons.prems [of x t] by (cases "f x t") simp
  have rest: "forEach xs f (snd (f x t)) = (Inr (), fold (\<lambda>x s. snd (f x s)) xs (snd (f x t)))"
    using Cons.IH [of "snd (f x t)"] Cons.prems by simp
  have "forEach (x # xs) f t = forEach xs f (snd (f x t))"
    by (subst forEach.simps, subst step) simp
  then show ?case
    using rest by simp
qed





text \<open>
  The same through the facade, on a host whose delegate lookup answers the items of a
  collection for which the delegate holds: \<open>addOnChange\<close> calls \<^verbatim>\<open>addOnChange(handler)\<close>
  once on each of those attributes and on no other, and warns of nothing.
\<close>

lemma addOnChange_by_delegate:
  assumes "formContext pc = JObj fc"
    and "''getAttribute'' \<in> set (fn_props fc)"
    and "host_getAttribute H fc (JFun f) = collection_get attrs (JFun f)"
    and "\<forall>a \<in> set attrs. ''addOnChange'' \<in> set (fn_props a)"
  shows "addOnChange H (Some pc) (JFun f) handler t =
           (Inr (), t @ map (\<lambda>a. HostCall a ''addOnChange'' [handler]) (filter f attrs))"
proof -
  let ?attach = "\<lambda>attribute. call_method attribute ''addOnChange'' [handler]"
  let ?items = "map JObj (filter f attrs)"
  have found: "getAttribute H (Some pc) (JFun f) t = (Inr (JArr ?items), t)"
    using assms(1,2,3)
    by (simp add: getAttribute_def getObject_def call_reader_object collection_get_def)
  have step: "\<And>x s. x \<in> set ?items \<Longrightarrow> ?attach x s = (Inr (), s @ [HostCall (case x of JObj a \<Rightarrow> a) ''addOnChange'' [handler]])"
    using assms(4) by (auto simp: call_method_object)
  have "forEach ?items ?attach t = (Inr (), fold (\<lambda>x s. snd (?attach x s)) ?items t)"
    by (rule forEach_total) (simp add: step)
  moreover have "fold (\<lambda>x s. snd (?attach x s)) ?items t =
                   t @ map (\<lambda>a. HostCall a ''addOnChange'' [handler]) (filter f attrs)"
    using assms(4)
  proof (induction attrs arbitrary: t)
    case Nil
    then show ?case by simp
  next
    case (Cons a attrs)
    then show ?case by (simp add: call_method_object)
  qed
  ultimately show ?thesis
    using found by (simp add: addOnChange_def addHandler_delegate_def io_bind_def)
qed


section \<open>A direct instance that fails the capability guard\<close>

text \<open>
  C2, as the code has it. For a direct instance (an object) that fails the guard
  \<open>isValid\<close>, \<open>setToObject\<close> calls nothing and emits nothing, while \<open>addHandler\<close> attaches
  nothing and emits exactly one warning, \<^verbatim>\<open>Unhandled input type (object)\<close>, carrying the
  operation name and the instance.
\<close>

theorem instance_without_capability:
  assumes "\<not> isValid (JObj ob)"
  shows "setToObject (JObj ob) val getter getterAll valueApplier isValid t = (Inr (), t)
       \<and> addHandler (JObj ob) get getDelegate attach isValid addHandlerName t =
           (Inr (), t @ [Warn [JStr (''[PrimaryControl - Warning] '' @ addHandlerName
                                     @ '': Unhandled input type (object)''), JObj ob]])"
  using assms by (simp add: setToObject_instance_def addHandler_instance_def)

theorem instance_without_capability_witness:
  "\<not> isAttribute (JObj firstname_ctrl)
   \<and> setAttributeValue sample_host (Some sample_pc) (JObj firstname_ctrl) (JStr ''John'') [] = (Inr (), [])
   \<and> addOnChange sample_host (Some sample_pc) (JObj firstname_ctrl) (JFun (\<lambda>e. True)) [] =
       (Inr (), [Warn [JStr ''[PrimaryControl - Warning] addOnChange: Unhandled input type (object)'',
                       JObj firstname_ctrl]])"
proof -
  have guard: "\<not> isAttribute (JObj firstname_ctrl)"
    by (simp add: isAttribute_def has_function_def firstname_ctrl_def control_methods_def)
  show ?thesis
    using guard
      instance_without_capability [where isValid = isAttribute and ob = firstname_ctrl
        and t = "[]" and addHandlerName = "''addOnChange''", OF guard]
    by (simp add: setAttributeValue_def addOnChange_def)
qed

text \<open>
  The claim as worded (no report from either engine) fails for \<open>addHandler\<close>: a control
  handed to the attribute operation \<open>addOnChange\<close> is reported.
\<close>

theorem instance_without_capability_counterexample:
  "\<not> isAttribute (JObj firstname_ctrl)
   \<and> snd (addHandler (JObj firstname_ctrl) (getAttribute sample_host (Some sample_pc))
            (getAttribute sample_host (Some sample_pc))
            (\<lambda>attribute. call_method attribute ''addOnChange'' [JFun (\<lambda>e. True)])
            isAttribute ''addOnChange'' []) \<noteq> []"
  by (simp add: isAttribute_def has_function_def firstname_ctrl_def control_methods_def
      addHandler_instance_def)

section \<open>Falsy field values read by getAttributeValue\<close>

lemma getValue_resolver_readable:
  assumes "formContext pc = JObj fc"
    and "''getAttribute'' \<in> set (fn_props fc)"
    and "readable H fc k"
  shows "getValue_resolver H pc k t = (Inr (read_value H fc k), t)"
proof (cases "host_getAttribute H fc k")
  case (JObj a)
  then show ?thesis
    using assms
    by (simp add: getValue_resolver_def readable_def read_value_def call_reader_object io_bind_def)
qed (use assms in \<open>simp_all add: getValue_resolver_def readable_def read_value_def
      call_reader_object io_bind_def\<close>)

lemma getAttributeValue_array:
  assumes "formContext pc = JObj fc"
    and "''getAttribute'' \<in> set (fn_props fc)"
    and "\<forall>k \<in> set ks. readable H fc k"
  shows "getAttributeValue H (Some pc) (JArr ks) t =
           (Inr (JArr (filter (\<lambda>object. \<not> is_null object) (map (read_value H fc) ks))), t)"
proof -
  have "getObject (JArr ks) (getValue_resolver H pc) (getValue_resolverAll H pc) t =
          (Inr (JArr (filter (\<lambda>object. \<not> is_null object) (map (read_value H fc) ks))), t)"
    by (rule getObject_array) (simp add: assms getValue_resolver_readable)
  then show ?thesis
    by (simp add: getAttributeValue_def)
qed

text \<open>
  C9. Let an attribute's current value be falsy (\<open>0\<close>, the empty string or \<^verbatim>\<open>false\<close>).
  \<open>getAttributeValue\<close> called with the attribute's name or index returns \<^verbatim>\<open>null\<close>, not
  the value. Called with an array that contains the key, it keeps the value: the array
  result holds every value read that is not \<^verbatim>\<open>null\<close>, in order.
\<close>

theorem falsy_value_scalar_vs_array:
  assumes "formContext pc = JObj fc"
    and "''getAttribute'' \<in> set (fn_props fc)"
    and "key = JStr s \<or> key = JNum n"
    and "host_getAttribute H fc key = JObj a"
    and "''getValue'' \<in> set (fn_props a)"
    and "host_getValue H a = v"
    and "v = JNum 0 \<or> v = JStr [] \<or> v = JBool False"
    and "key \<in> set ks"
    and "\<forall>k \<in> set ks. readable H fc k"
  shows "fst (getAttributeValue H (Some pc) key t) = Inr JNull
       \<and> getAttributeValue H (Some pc) (JArr [key]) t = (Inr (JArr [v]), t)
       \<and> getAttributeValue H (Some pc) (JArr ks) t =
           (Inr (JArr (filter (\<lambda>object. \<not> is_null object) (map (read_value H fc) ks))), t)
       \<and> v \<in> set (filter (\<lambda>object. \<not> is_null object) (map (read_value H fc) ks))"
proof -
  have rk: "readable H fc key"
    using assms(4,5) by (simp add: readable_def)
  have rv: "read_value H fc key = v"
    using assms(4,6,7) by (auto simp: read_value_def)
  have falsy: "\<not> truthy v" and notnull: "\<not> is_null v"
    using assms(7) by auto
  have res: "getValue_resolver H pc key t = (Inr v, t)"
    using getValue_resolver_readable [OF assms(1,2) rk] rv by simp
  have scalar: "fst (getAttributeValue H (Some pc) key t) = Inr JNull"
  proof (cases "truthy key")
    case True
    have "getObject key (getValue_resolver H pc) (getValue_resolverAll H pc) t = (Inr JNull, t)"
      using getObject_key [where resolver = "getValue_resolver H pc" and key = key
          and t = t and t' = t and r = v and resolverAll = "getValue_resolverAll H pc",
          OF assms(3) res] falsy by simp
    then show ?thesis
      using True by (simp add: getAttributeValue_def)
  next
    case False
    then show ?thesis
      by (simp add: getAttributeValue_def)
  qed
  have single: "getAttributeValue H (Some pc) (JArr [key]) t = (Inr (JArr [v]), t)"
    using getAttributeValue_array [OF assms(1,2), of "[key]" H t] rk rv notnull by simp
  have many: "getAttributeValue H (Some pc) (JArr ks) t =
           (Inr (JArr (filter (\<lambda>object. \<not> is_null object) (map (read_value H fc) ks))), t)"
    by (rule getAttributeValue_array [OF assms(1,2,9)])
  have kept: "v \<in> set (filter (\<lambda>object. \<not> is_null object) (map (read_value H fc) ks))"
    using assms(8) rv notnull by force
  show ?thesis
    using scalar single many kept by simp
qed

theorem falsy_value_scalar_vs_array_witness:
  "host_getValue sample_host age_attr = JNum 0
   \<and> getAttributeValue sample_host (Some sample_pc) (JStr ''age'') [] = (Inr JNull, [])
   \<and> getAttributeValue sample_host (Some sample_pc) (JArr [JStr ''age'']) [] = (Inr (JArr [JNum 0]), [])
   \<and> getAttributeValue sample_host (Some sample_pc)
        (JArr [JStr ''firstname'', JStr ''age'', JStr ''lastname'']) [] =
       (Inr (JArr [JStr ''Ada'', JNum 0]), [])"
proof -
  have fc: "formContext sample_pc = JObj sample_form"
    and m: "''getAttribute'' \<in> set (fn_props sample_form)"
    by (simp_all add: sample_pc_def sample_form_def)
  have key: "JStr ''age'' = JStr ''age'' \<or> JStr ''age'' = JNum 0"
    by simp
  have attr: "host_getAttribute sample_host sample_form (JStr ''age'') = JObj age_attr"
    by (simp add: sample_host_def collection_get_def firstname_attr_def lastname_attr_def age_attr_def)
  have gv: "''getValue'' \<in> set (fn_props age_attr)"
    by (simp add: age_attr_def attribute_methods_def)
  have v: "host_getValue sample_host age_attr = JNum 0"
    by (simp add: sample_host_def sample_value_def age_attr_def)
  have zero: "JNum 0 = JNum 0 \<or> JNum 0 = JStr [] \<or> JNum 0 = JBool False"
    by simp
  have mem: "JStr ''age'' \<in> set [JStr ''firstname'', JStr ''age'', JStr ''lastname'']"
    by simp
  have all: "\<forall>k \<in> set [JStr ''firstname'', JStr ''age'', JStr ''lastname'']. readable sample_host sample_form k"
    by (simp add: readable_def sample_host_def collection_get_def firstname_attr_def
        lastname_attr_def age_attr_def attribute_methods_def)
  have scalar: "snd (getAttributeValue sample_host (Some sample_pc) (JStr ''age'') []) = []"
    by (simp add: getAttributeValue_def getObject_def getValue_resolver_def sample_pc_def
        sample_form_def call_reader_def sample_host_def collection_get_def firstname_attr_def
        lastname_attr_def age_attr_def attribute_methods_def sample_value_def io_bind_def)
  have vals: "map (read_value sample_host sample_form) [JStr ''firstname'', JStr ''age'', JStr ''lastname'']
                = [JStr ''Ada'', JNum 0, JNull]"
    by (simp add: read_value_def sample_host_def collection_get_def firstname_attr_def
        lastname_attr_def age_attr_def sample_value_def)
  show ?thesis
    using falsy_value_scalar_vs_array [OF fc m key attr gv v zero mem all, of "[]"] v scalar vals
    by (cases "getAttributeValue sample_host (Some sample_pc) (JStr ''age'') []") simp
qed

section \<open>Writing by name through setToObject\<close>

text \<open>
  A method taken off the instance runs with \<^verbatim>\<open>this\<close> undefined and throws before it
  looks anything up.
\<close>

lemma detached_getAttribute_throws:
  "getAttribute H (None :: 'a PrimaryControl_scheme option) input t = (Inl TypeError, t)"
  by (simp add: getAttribute_def)

lemma detached_getControl_throws:
  "getControl H (None :: 'a PrimaryControl_scheme option) input t = (Inl TypeError, t)"
  by (simp add: getControl_def)

lemma setToObject_key_getter_throws:
  assumes "key = JStr s \<or> key = JNum n"
    and "getter key t = (Inl e, t')"
  shows "setToObject key val getter getterAll valueApplier isValid t = (Inl e, t')"
  using assms by (auto simp: setToObject_key_def io_bind_def)

text \<open>
  With a getter that does resolve, the string/number branch applies the value only when
  the lookup answered nothing.
\<close>

lemma setToObject_key_resolved:
  assumes "key = JStr s \<or> key = JNum n"
    and "getter key t = (Inr component, t')"
  shows "setToObject key val getter getterAll valueApplier isValid t =
           (if truthy component then (Inr (), t') else valueApplier component val t')"
  using assms by (auto simp: setToObject_key_def io_bind_def)

lemma setAttributeValue_by_key_throws:
  assumes "key = JStr s \<or> key = JNum n" and "truthy key"
  shows "setAttributeValue H (Some pc) key val t = (Inl TypeError, t)"
  using assms by (auto simp: setAttributeValue_def setToObject_key_def getAttribute_def)

lemma setAttributeValue_instance:
  assumes "isAttribute (JObj a)" and "''setValue'' \<in> set (fn_props a)"
  shows "setAttributeValue H (Some pc) (JObj a) val t = (Inr (), t @ [HostCall a ''setValue'' [val]])"
  using assms by (simp add: setAttributeValue_def setToObject_instance_def call_method_object)

text \<open>
  C1, on the code. \<open>setAttributeValue("firstname", "John")\<close> on a form whose attribute
  \<open>firstname\<close> resolves throws a \<^verbatim>\<open>TypeError\<close> and calls \<^verbatim>\<open>setValue\<close> on nothing: the
  getter handed to \<open>setToObject\<close> is the detached \<^verbatim>\<open>this.getAttribute\<close>. With the getter
  bound to the instance, \<open>setToObject\<close> still writes nothing, because it applies the value
  under \<^verbatim>\<open>if (!component)\<close>. Handing the attribute itself writes once.
\<close>

theorem setAttributeValue_by_name_writes_nothing:
  "getAttribute sample_host (Some sample_pc) (JStr ''firstname'') [] = (Inr (JObj firstname_attr), [])
   \<and> setAttributeValue sample_host (Some sample_pc) (JStr ''firstname'') (JStr ''John'') [] =
       (Inl TypeError, [])
   \<and> setToObject (JStr ''firstname'') (JStr ''John'')
        (getAttribute sample_host (Some sample_pc)) (getAttribute sample_host (Some sample_pc))
        (\<lambda>input val. call_method input ''setValue'' [val]) isAttribute [] = (Inr (), [])
   \<and> setAttributeValue sample_host (Some sample_pc) (JObj firstname_attr) (JStr ''John'') [] =
       (Inr (), [HostCall firstname_attr ''setValue'' [JStr ''John'']])"
proof -
  have found: "getAttribute sample_host (Some sample_pc) (JStr ''firstname'') [] =
                 (Inr (JObj firstname_attr), [])"
    by (simp add: getAttribute_def getObject_def sample_pc_def sample_form_def sample_host_def
        call_reader_def collection_get_def firstname_attr_def)
  have thrown: "setAttributeValue sample_host (Some sample_pc) (JStr ''firstname'') (JStr ''John'') [] =
                  (Inl TypeError, [])"
    by (rule setAttributeValue_by_key_throws [where s = "''firstname''"]) simp_all
  have bound: "setToObject (JStr ''firstname'') (JStr ''John'')
        (getAttribute sample_host (Some sample_pc)) (getAttribute sample_host (Some sample_pc))
        (\<lambda>input val. call_method input ''setValue'' [val]) isAttribute [] = (Inr (), [])"
    using setToObject_key_resolved [where key = "JStr ''firstname''" and s = "''firstname''"
        and getter = "getAttribute sample_host (Some sample_pc)" and t = "[]" and t' = "[]"
        and component = "JObj firstname_attr", OF _ found]
    by simp
  have direct: "setAttributeValue sample_host (Some sample_pc) (JObj firstname_attr) (JStr ''John'') [] =
       (Inr (), [HostCall firstname_attr ''setValue'' [JStr ''John'']])"
    using setAttributeValue_instance [of firstname_attr sample_host sample_pc "JStr ''John''" "[]"]
    by (simp add: isAttribute_def isObject_def has_function_def firstname_attr_def
        attribute_methods_def)
  show ?thesis
    using found thrown bound direct by simp
qed


section \<open>Provider.from and what the engines throw\<close>

lemma Provider_from_falsy:
  assumes "\<not> truthy ctx"
  shows "Provider_from H ctx t =
           (Inl (Error (''[D365 Form Scripting Framework - Provider] Invalid context provided. Provided context: ''
                        @ template_string ctx)), t)"
  using assms by (simp add: Provider_from_def)

lemma Provider_from_execution_context:
  assumes "truthy ctx" and "isExecutionContext ctx"
  shows "\<exists>ec. ctx = JObj ec \<and>
           Provider_from H ctx t =
             (Inr (IsFormContext \<lparr>formContext = host_getFormContext H ec, executionContext = ctx\<rparr>), t)"
proof (cases ctx)
  case (JObj ec)
  then show ?thesis
    using assms
    by (simp add: Provider_from_def new_FormContext_def isExecutionContext_def has_function_def
        call_reader_object io_bind_def)
qed (use assms in \<open>simp_all add: isExecutionContext_def has_function_def\<close>)

lemma Provider_from_form_context:
  assumes "truthy ctx" and "\<not> isExecutionContext ctx"
  shows "Provider_from H ctx t = (Inr (IsPrimaryControl \<lparr>formContext = ctx\<rparr>), t)"
  using assms by (simp add: Provider_from_def new_PrimaryControl_def)

lemma Provider_from_throws_iff_falsy:
  "(\<exists>e. fst (Provider_from H ctx t) = Inl e) \<longleftrightarrow> \<not> truthy ctx"
proof (cases "truthy ctx")
  case True
  then show ?thesis
    using Provider_from_execution_context [of ctx H t] Provider_from_form_context [of ctx H t]
    by (cases "isExecutionContext ctx") auto
next
  case False
  then show ?thesis
    by (simp add: Provider_from_falsy)
qed

lemma Provider_from_examples:
  "Provider_from sample_host (JObj sample_event) [] =
     (Inr (IsFormContext \<lparr>formContext = JObj sample_form, executionContext = JObj sample_event\<rparr>), [])
   \<and> Provider_from sample_host (JObj sample_form) [] =
     (Inr (IsPrimaryControl \<lparr>formContext = JObj sample_form\<rparr>), [])
   \<and> Provider_from sample_host JUndefined [] =
     (Inl (Error ''[D365 Form Scripting Framework - Provider] Invalid context provided. Provided context: undefined''), [])"
  by (simp add: Provider_from_def isExecutionContext_def isObject_def has_function_def
      sample_event_def sample_form_def new_FormContext_def new_PrimaryControl_def
      call_reader_def sample_host_def io_bind_def)

text \<open>
  C8, on the code. The factory throws exactly on a falsy context (the lemmas above), but
  \<open>setToObject\<close> does throw on a name: through the facade because the detached getter
  throws, and with a bound getter because a name that does not resolve makes it call the
  applier on \<^verbatim>\<open>null\<close>.
\<close>

theorem setToObject_throws_on_a_name:
  "setVisible sample_host (Some sample_pc) (JStr ''firstname'') (JBool False) [] = (Inl TypeError, [])
   \<and> setAttributeValue sample_host (Some sample_pc) (JStr ''ghost'') (JStr ''X'') [] = (Inl TypeError, [])
   \<and> getControl sample_host (Some sample_pc) (JStr ''ghost'') [] = (Inr JNull, [])
   \<and> setToObject (JStr ''ghost'') (JBool False)
        (getControl sample_host (Some sample_pc)) (getControl sample_host (Some sample_pc))
        (\<lambda>control isVisible. call_method control ''setVisible'' [isVisible])
        isControlCanSetVisible [] = (Inl TypeError, [])"
proof -
  have facade: "setVisible sample_host (Some sample_pc) (JStr ''firstname'') (JBool False) [] =
                  (Inl TypeError, [])"
    by (simp add: setVisible_def setToObject_key_def getControl_def)
  have ghost_write: "setAttributeValue sample_host (Some sample_pc) (JStr ''ghost'') (JStr ''X'') [] =
                       (Inl TypeError, [])"
    by (simp add: setAttributeValue_def setToObject_key_def getAttribute_def)
  have ghost: "getControl sample_host (Some sample_pc) (JStr ''ghost'') [] = (Inr JNull, [])"
    by (simp add: getControl_def getObject_def sample_pc_def sample_form_def sample_host_def
        call_reader_def collection_get_def firstname_ctrl_def parentaccount_ctrl_def
        control_methods_def)
  have bound: "setToObject (JStr ''ghost'') (JBool False)
        (getControl sample_host (Some sample_pc)) (getControl sample_host (Some sample_pc))
        (\<lambda>control isVisible. call_method control ''setVisible'' [isVisible])
        isControlCanSetVisible [] = (Inl TypeError, [])"
    using ghost by (simp add: setToObject_key_def io_bind_def call_method_def)
  show ?thesis
    using facade ghost_write ghost bound by simp
qed

end
